theory Spec2Isabelle
  imports Main "HOL-Library.Sublist" "HOL-Library.Char_ord" "HOL-Library.List_Lexorder"
begin

section \<open>The skill validator of quick\_validate.py\<close>

text \<open>
  The development embeds \<^verbatim>\<open>skills/managing-skills/scripts/quick_validate.py\<close>:
  the function \<^verbatim>\<open>validate_skill\<close> and the command \<^verbatim>\<open>main\<close>.
  A Python \<^verbatim>\<open>str\<close> is a \<^typ>\<open>string\<close>, one \<^typ>\<open>char\<close> per
  character (code points up to 255). The YAML loader and the file system are not code
  of the script: they are parameters of the model.
\<close>

subsection \<open>Python values, exceptions and results\<close>

text \<open>
  What \<^verbatim>\<open>yaml.safe_load\<close> can build. Keys of a mapping are arbitrary hashable
  values, so a mapping is an association list from values to values. The remaining
  Python types a safe loader constructs carry their printed form only.
\<close>

datatype other_type = Float | Bytes | Date | Datetime | Set | Tuple

datatype yaml =
    YNull
  | YBool bool
  | YInt int
  | YStr string
  | YList "yaml list"
  | YDict "(yaml \<times> yaml) list"
  | YOther other_type string

text \<open>An exception that leaves a function, for what the script does not catch.\<close>

datatype exn = TypeError | Uncaught string

datatype 'a outcome = Return 'a | Raise exn

text \<open>
  \<^verbatim>\<open>yaml.safe_load(text)\<close>: a value, a \<^verbatim>\<open>yaml.YAMLError\<close> with its
  message, or an exception of another class.
\<close>

datatype load_result = Loaded yaml | YAMLError string | LoadRaises exn

type_synonym loader = "string \<Rightarrow> load_result"

text \<open>
  The file \<^verbatim>\<open>SKILL.md\<close> of a directory: missing (\<^verbatim>\<open>exists()\<close> is false),
  a text file with the string \<^verbatim>\<open>read_text()\<close> returns, or an entry that exists and
  whose reading raises (a directory, a file that is not valid text).
\<close>

datatype skill_md = Absent | Readable string | Unreadable exn

type_synonym filesystem = "string \<Rightarrow> skill_md"

type_synonym verdict = "bool \<times> string"

subsection \<open>String operations of Python\<close>

abbreviation NL :: char where "NL \<equiv> CHR 0x0A"
abbreviation QUOTE :: char where "QUOTE \<equiv> CHR 0x27"

text \<open>\<^verbatim>\<open>str.isspace\<close> on one character, for the code points below 256.\<close>

definition isspace :: "char \<Rightarrow> bool" where
  "isspace c = (c \<in> set [CHR 0x09, CHR 0x0A, CHR 0x0B, CHR 0x0C, CHR 0x0D,
                          CHR 0x1C, CHR 0x1D, CHR 0x1E, CHR 0x1F, CHR 0x20,
                          CHR 0x85, CHR 0xA0])"

text \<open>\<^verbatim>\<open>s.strip()\<close>\<close>

definition strip :: "string \<Rightarrow> string" where
  "strip s = rev (dropWhile isspace (rev (dropWhile isspace s)))"

text \<open>\<^verbatim>\<open>sub in s\<close>\<close>

fun contains :: "string \<Rightarrow> string \<Rightarrow> bool" where
  "contains sub [] = (sub = [])"
| "contains sub (c # cs) = (prefix sub (c # cs) \<or> contains sub cs)"

text \<open>\<^verbatim>\<open>s.startswith(p)\<close> is \<^const>\<open>prefix\<close>; \<^verbatim>\<open>s.endswith(p)\<close> is \<^const>\<open>suffix\<close>.\<close>

text \<open>\<^verbatim>\<open>sep.join(xs)\<close> on a list of strings.\<close>

fun join :: "string \<Rightarrow> string list \<Rightarrow> string" where
  "join sep [] = []"
| "join sep [x] = x"
| "join sep (x # y # ys) = x @ sep @ join sep (y # ys)"

text \<open>\<^verbatim>\<open>str(n)\<close> for a length or a count.\<close>

fun str_nat :: "nat \<Rightarrow> string" where
  "str_nat n = (if n < 10 then [''0123456789'' ! n]
                else str_nat (n div 10) @ [''0123456789'' ! (n mod 10)])"

declare str_nat.simps [simp del]

text \<open>
  \<^verbatim>\<open>s.splitlines()\<close>: the line boundaries are LF, CR, CR LF, VT, FF, FS, GS, RS
  and NEL; a boundary at the very end opens no further line.
\<close>

definition linebreak :: "char \<Rightarrow> bool" where
  "linebreak c = (c \<in> set [CHR 0x0A, CHR 0x0D, CHR 0x0B, CHR 0x0C,
                            CHR 0x1C, CHR 0x1D, CHR 0x1E, CHR 0x85])"

fun splitlines_from :: "string \<Rightarrow> string \<Rightarrow> string list" where
  "splitlines_from cur [] = (if cur = [] then [] else [cur])"
| "splitlines_from cur [c] = (if linebreak c then [cur] else [cur @ [c]])"
| "splitlines_from cur (c # d # cs) =
     (if c = CHR 0x0D \<and> d = CHR 0x0A then cur # splitlines_from [] cs
      else if linebreak c then cur # splitlines_from [] (d # cs)
      else splitlines_from (cur @ [c]) (d # cs))"

definition splitlines :: "string \<Rightarrow> string list" where
  "splitlines s = splitlines_from [] s"

subsection \<open>The two regular expressions\<close>

text \<open>
  \<^verbatim>\<open>re.match(r'^---\n(.*?)\n---', content, re.DOTALL)\<close>. The match starts at the
  beginning of the text; with DOTALL the lazy group takes any characters, newlines
  included, and stops at the first place where \<^verbatim>\<open>\n---\<close> follows.
  \<open>lazy_until lit s\<close> is that group: the shortest prefix of \<open>s\<close> after which
  \<open>lit\<close> stands, or \<open>None\<close> when \<open>lit\<close> stands nowhere in \<open>s\<close>.
\<close>

fun lazy_until :: "string \<Rightarrow> string \<Rightarrow> string option" where
  "lazy_until lit [] = (if lit = [] then Some [] else None)"
| "lazy_until lit (c # cs) =
     (if prefix lit (c # cs) then Some []
      else map_option (Cons c) (lazy_until lit cs))"

definition match_frontmatter :: "string \<Rightarrow> string option" where
  "match_frontmatter content =
     (if prefix ''---\<newline>'' content
      then lazy_until ''\<newline>---'' (drop 4 content)
      else None)"

text \<open>
  \<^verbatim>\<open>re.match(r'^[a-z0-9-]+$', name)\<close>. The class is greedy and \<^verbatim>\<open>$\<close> holds at
  the end of the text and also just before a newline that ends the text.
\<close>

definition hyphen_case_char :: "char \<Rightarrow> bool" where
  "hyphen_case_char c =
     ((CHR ''a'' \<le> c \<and> c \<le> CHR ''z'') \<or> (CHR ''0'' \<le> c \<and> c \<le> CHR ''9'') \<or> c = CHR ''-'')"

definition match_hyphen_case :: "string \<Rightarrow> bool" where
  "match_hyphen_case name =
     (let rest = dropWhile hyphen_case_char name
      in takeWhile hyphen_case_char name \<noteq> [] \<and> (rest = [] \<or> rest = [NL]))"

subsection \<open>Dictionaries and type names\<close>

text \<open>\<^verbatim>\<open>key in d\<close> and \<^verbatim>\<open>d.get(key, default)\<close> for a string key.\<close>

definition has_key :: "(yaml \<times> yaml) list \<Rightarrow> string \<Rightarrow> bool" where
  "has_key d k = (map_of d (YStr k) \<noteq> None)"

definition get :: "(yaml \<times> yaml) list \<Rightarrow> string \<Rightarrow> yaml \<Rightarrow> yaml" where
  "get d k dflt = (case map_of d (YStr k) of None \<Rightarrow> dflt | Some v \<Rightarrow> v)"

text \<open>\<^verbatim>\<open>type(v).__name__\<close>\<close>

fun type_name :: "yaml \<Rightarrow> string" where
  "type_name YNull = ''NoneType''"
| "type_name (YBool b) = ''bool''"
| "type_name (YInt i) = ''int''"
| "type_name (YStr s) = ''str''"
| "type_name (YList xs) = ''list''"
| "type_name (YDict d) = ''dict''"
| "type_name (YOther Float r) = ''float''"
| "type_name (YOther Bytes r) = ''bytes''"
| "type_name (YOther Date r) = ''date''"
| "type_name (YOther Datetime r) = ''datetime''"
| "type_name (YOther Set r) = ''set''"
| "type_name (YOther Tuple r) = ''tuple''"

text \<open>
  The strings of a list of keys, as \<^verbatim>\<open>', '.join(sorted(keys))\<close> needs them:
  \<^verbatim>\<open>sorted\<close> raises TypeError on keys of types it cannot compare and
  \<^verbatim>\<open>join\<close> raises TypeError on an item that is not a string, so a key that is
  not a string leaves no result.
\<close>

fun str_items :: "yaml list \<Rightarrow> string list option" where
  "str_items [] = Some []"
| "str_items (YStr s # ks) = map_option (Cons s) (str_items ks)"
| "str_items (k # ks) = None"

subsection \<open>validate\_skill\<close>

definition ALLOWED_PROPERTIES :: "string list" where
  "ALLOWED_PROPERTIES = [''name'', ''description'', ''license'', ''allowed-tools'', ''metadata'']"

text \<open>
  \<^verbatim>\<open>set(frontmatter.keys()) - ALLOWED_PROPERTIES\<close>, a set as a list without
  repetition.
\<close>

definition unexpected_keys :: "(yaml \<times> yaml) list \<Rightarrow> yaml list" where
  "unexpected_keys frontmatter =
     remdups (filter (\<lambda>k. k \<notin> YStr ` set ALLOWED_PROPERTIES) (map fst frontmatter))"

text \<open>The messages of the name checks, lines 78 to 87.\<close>

definition name_type_message :: "yaml \<Rightarrow> string" where
  "name_type_message v = ''Name must be a string, got '' @ type_name v"

definition hyphen_case_message :: "string \<Rightarrow> string" where
  "hyphen_case_message name =
     ''Name '' @ [QUOTE] @ name @ [QUOTE]
     @ '' should be hyphen-case (lowercase, digits, hyphens only)''"

definition hyphen_position_message :: "string \<Rightarrow> string" where
  "hyphen_position_message name =
     ''Name '' @ [QUOTE] @ name @ [QUOTE]
     @ '' cannot start/end with hyphen or contain consecutive hyphens''"

definition name_length_message :: "string \<Rightarrow> string" where
  "name_length_message name = ''Name too long ('' @ str_nat (length name) @ '' chars). Max: 64''"

text \<open>Lines 76 to 87: the first complaint about the name, or \<open>None\<close>.\<close>

definition name_error :: "yaml \<Rightarrow> string option" where
  "name_error v =
     (case v of
        YStr s \<Rightarrow>
          (let name = strip s in
           if name \<noteq> [] then
             if \<not> match_hyphen_case name then Some (hyphen_case_message name)
             else if prefix ''-'' name \<or> suffix ''-'' name \<or> contains ''--'' name then
               Some (hyphen_position_message name)
             else if length name > 64 then Some (name_length_message name)
             else None
           else None)
      | _ \<Rightarrow> Some (name_type_message v))"

text \<open>The messages of the description checks, lines 92 to 98.\<close>

definition description_type_message :: "yaml \<Rightarrow> string" where
  "description_type_message v = ''Description must be a string, got '' @ type_name v"

definition angle_bracket_message :: string where
  "angle_bracket_message = ''Description cannot contain angle brackets (< or >)''"

definition description_length_message :: "string \<Rightarrow> string" where
  "description_length_message description =
     ''Description too long ('' @ str_nat (length description) @ '' chars). Max: 1024''"

text \<open>Lines 90 to 98: the first complaint about the description, or \<open>None\<close>.\<close>

definition description_error :: "yaml \<Rightarrow> string option" where
  "description_error v =
     (case v of
        YStr s \<Rightarrow>
          (let description = strip s in
           if description \<noteq> [] then
             if CHR ''<'' \<in> set description \<or> CHR ''>'' \<in> set description then
               Some angle_bracket_message
             else if length description > 1024 then
               Some (description_length_message description)
             else None
           else None)
      | _ \<Rightarrow> Some (description_type_message v))"

text \<open>The two messages of the line count, lines 103 and 105.\<close>

definition too_long_message :: "nat \<Rightarrow> string" where
  "too_long_message line_count =
     ''SKILL.md too long ('' @ str_nat line_count @ '' lines). Recommended max: 500''"

definition valid_message :: "nat \<Rightarrow> string" where
  "valid_message line_count = ''Skill is valid! ('' @ str_nat line_count @ '' lines)''"

text \<open>Lines 101 to 105: the line count of the whole text decides the verdict.\<close>

definition line_count_verdict :: "string \<Rightarrow> verdict" where
  "line_count_verdict content =
     (let line_count = length (splitlines content) in
      if line_count > 500 then (False, too_long_message line_count)
      else (True, valid_message line_count))"

text \<open>Lines 90 to 105: the description, then the line count.\<close>

definition check_description_and_lines :: "(yaml \<times> yaml) list \<Rightarrow> string \<Rightarrow> verdict" where
  "check_description_and_lines frontmatter content =
     (case description_error (get frontmatter ''description'' (YStr [])) of
        Some message \<Rightarrow> (False, message)
      | None \<Rightarrow> line_count_verdict content)"

text \<open>The messages of lines 64 to 73.\<close>

definition unexpected_message :: "string list \<Rightarrow> string" where
  "unexpected_message keys =
     ''Unexpected key(s) in frontmatter: '' @ join '', '' (sort keys) @ ''. ''
     @ ''Allowed: '' @ join '', '' (sort ALLOWED_PROPERTIES)"

definition missing_message :: "string \<Rightarrow> string" where
  "missing_message field = ''Missing '' @ [QUOTE] @ field @ [QUOTE] @ '' in frontmatter''"

text \<open>Lines 62 to 105: the checks on the parsed mapping, in the order of the source.\<close>

definition validate_mapping :: "(yaml \<times> yaml) list \<Rightarrow> string \<Rightarrow> verdict outcome" where
  "validate_mapping frontmatter content =
     (if unexpected_keys frontmatter \<noteq> [] then
        (case str_items (unexpected_keys frontmatter) of
           None \<Rightarrow> Raise TypeError
         | Some keys \<Rightarrow> Return (False, unexpected_message keys))
      else if \<not> has_key frontmatter ''name'' then Return (False, missing_message ''name'')
      else if \<not> has_key frontmatter ''description'' then
        Return (False, missing_message ''description'')
      else
        (case name_error (get frontmatter ''name'' (YStr [])) of
           Some message \<Rightarrow> Return (False, message)
         | None \<Rightarrow> Return (check_description_and_lines frontmatter content)))"

text \<open>Lines 43 to 59, then the checks on the mapping.\<close>

definition validate_content :: "loader \<Rightarrow> string \<Rightarrow> verdict outcome" where
  "validate_content safe_load content =
     (if \<not> prefix ''---'' content then Return (False, ''No YAML frontmatter found'')
      else
        (case match_frontmatter content of
           None \<Rightarrow> Return (False, ''Invalid frontmatter format'')
         | Some frontmatter_text \<Rightarrow>
             (case safe_load frontmatter_text of
                YAMLError e \<Rightarrow> Return (False, ''Invalid YAML in frontmatter: '' @ e)
              | LoadRaises x \<Rightarrow> Raise x
              | Loaded (YDict frontmatter) \<Rightarrow> validate_mapping frontmatter content
              | Loaded _ \<Rightarrow> Return (False, ''Frontmatter must be a YAML dictionary''))))"

text \<open>
  \<^verbatim>\<open>validate_skill(skill_path)\<close>. The file system maps the directory to the state
  of its \<^verbatim>\<open>SKILL.md\<close>.
\<close>

definition validate_skill :: "loader \<Rightarrow> filesystem \<Rightarrow> string \<Rightarrow> verdict outcome" where
  "validate_skill safe_load fs skill_path =
     (case fs skill_path of
        Absent \<Rightarrow> Return (False, ''SKILL.md not found'')
      | Unreadable x \<Rightarrow> Raise x
      | Readable content \<Rightarrow> validate_content safe_load content)"

subsection \<open>main\<close>

text \<open>
  The characters that \<^verbatim>\<open>main\<close> prints: those of the strings of this development, and
  the two marks of lines 119 and 121, the check mark (U+2713) and the cross (U+2717).
\<close>

datatype glyph = Ch char | CheckMark | CrossMark

text \<open>
  \<^verbatim>\<open>sys.stdout\<close> is a text stream with an encoding: the characters that the encoding has,
  and the characters written so far.
\<close>

type_synonym encoding = "glyph \<Rightarrow> bool"

type_synonym stdout = "glyph list"

text \<open>
  \<^verbatim>\<open>sys.stdout.write(s)\<close> encodes all of \<^verbatim>\<open>s\<close> before it writes any of it, and raises
  \<^verbatim>\<open>UnicodeEncodeError\<close> when the encoding lacks one of its characters.
\<close>

definition stdout_write :: "encoding \<Rightarrow> glyph list \<Rightarrow> stdout \<Rightarrow> stdout \<times> exn option" where
  "stdout_write enc s out =
     (if list_all enc s then (out @ s, None)
      else (out, Some (Uncaught ''UnicodeEncodeError'')))"

text \<open>\<^verbatim>\<open>print(s)\<close> writes \<^verbatim>\<open>s\<close>, then the newline.\<close>

definition print :: "encoding \<Rightarrow> glyph list \<Rightarrow> stdout \<Rightarrow> stdout \<times> exn option" where
  "print enc s out =
     (case stdout_write enc s out of
        (out', Some x) \<Rightarrow> (out', Some x)
      | (out', None) \<Rightarrow> stdout_write enc [Ch NL] out')"

text \<open>Calls of \<^verbatim>\<open>print\<close> one after the other; the first that raises ends them.\<close>

fun print_all :: "encoding \<Rightarrow> glyph list list \<Rightarrow> stdout \<Rightarrow> stdout \<times> exn option" where
  "print_all enc [] out = (out, None)"
| "print_all enc (s # rest) out =
     (case print enc s out of
        (out', Some x) \<Rightarrow> (out', Some x)
      | (out', None) \<Rightarrow> print_all enc rest out')"

text \<open>
  How the process ends: \<^verbatim>\<open>sys.exit(code)\<close>, or an exception that nothing catches, for
  which the interpreter prints a traceback on the standard error and gives the exit
  status 1.
\<close>

datatype ending = Exit nat | Traceback exn

fun exit_status :: "ending \<Rightarrow> nat" where
  "exit_status (Exit code) = code"
| "exit_status (Traceback x) = 1"



subsection \<open>The vocabulary of the specification\<close>

text \<open>
  The names the specification allows, in its own words: a non-empty string over
  lowercase letters, digits and hyphens that neither starts nor ends with a hyphen, has
  no two hyphens in a row, and has at most 64 characters.
\<close>

definition hyphen_case_alphabet :: string where
  "hyphen_case_alphabet = ''abcdefghijklmnopqrstuvwxyz0123456789-''"

definition name_language :: "string \<Rightarrow> bool" where
  "name_language n =
     (n \<noteq> [] \<and> set n \<subseteq> set hyphen_case_alphabet
      \<and> hd n \<noteq> CHR ''-'' \<and> last n \<noteq> CHR ''-'' \<and> \<not> sublist ''--'' n \<and> length n \<le> 64)"

text \<open>
  The first line of a text, and whether a later line consists of the closing
  delimiter only.
\<close>

definition first_line :: "string \<Rightarrow> string" where
  "first_line content = takeWhile (\<lambda>c. c \<noteq> NL) content"

definition closing_delimiter_line :: "string \<Rightarrow> bool" where
  "closing_delimiter_line content = (''---'' \<in> set (tl (splitlines content)))"

text \<open>A text written line by line, a newline after each line.\<close>

definition text_of_lines :: "string list \<Rightarrow> string" where
  "text_of_lines ls = concat (map (\<lambda>l. l @ [NL]) ls)"

subsection \<open>Stand-ins for the two parameters\<close>

text \<open>
  A loader that answers every text with one value, and a file system in which every
  directory holds the same readable \<^verbatim>\<open>SKILL.md\<close>: enough to run the validator on one
  document.
\<close>

definition loads :: "yaml \<Rightarrow> loader" where
  "loads v = (\<lambda>text. Loaded v)"

definition holds :: "string \<Rightarrow> filesystem" where
  "holds content = (\<lambda>skill_path. Readable content)"



section \<open>Facts about the string operations\<close>

lemma mem_via_code: "c \<in> set cs \<longleftrightarrow> (of_char c :: nat) \<in> set (map of_char cs)"
  by (induction cs) auto

lemma lower_chars:
  "(CHR ''a'' \<le> c \<and> c \<le> CHR ''z'') \<longleftrightarrow> c \<in> set ''abcdefghijklmnopqrstuvwxyz''"
  unfolding mem_via_code [of c] less_eq_char_def
  by simp arith

lemma digit_chars:
  "(CHR ''0'' \<le> c \<and> c \<le> CHR ''9'') \<longleftrightarrow> c \<in> set ''0123456789''"
  unfolding mem_via_code [of c] less_eq_char_def
  by simp arith

lemma hyphen_case_char_iff: "hyphen_case_char c \<longleftrightarrow> c \<in> set hyphen_case_alphabet"
  unfolding hyphen_case_char_def lower_chars digit_chars hyphen_case_alphabet_def by auto

lemma contains_sublist: "contains sub s \<longleftrightarrow> sublist sub s"
  by (induction s) (auto simp: sublist_Cons_right)

text \<open>A stripped string neither starts nor ends with white space.\<close>

lemma strip_last: "strip s \<noteq> [] \<Longrightarrow> \<not> isspace (last (strip s))"
  unfolding strip_def by (simp add: last_rev hd_dropWhile)

lemma strip_hd:
  assumes "strip s \<noteq> []"
  shows "\<not> isspace (hd (strip s))"
proof -
  define t where "t = dropWhile isspace s"
  define u where "u = dropWhile isspace (rev t)"
  have u: "u \<noteq> []" using assms by (simp add: strip_def u_def t_def)
  then have t: "t \<noteq> []" by (auto simp: u_def)
  have "suffix u (rev t)" unfolding u_def by (rule suffix_dropWhile)
  then have "last u = last (rev t)" using u by (auto simp: suffix_def)
  then have "hd (rev u) = hd t" using u t by (simp add: hd_rev last_rev)
  moreover have "\<not> isspace (hd t)" using t unfolding t_def by (rule hd_dropWhile)
  ultimately show ?thesis by (simp add: strip_def u_def t_def)
qed

text \<open>
  On a text that does not end with a newline, the pattern \<^verbatim>\<open>^[a-z0-9-]+$\<close> matches
  exactly the non-empty strings over the alphabet.
\<close>

lemma match_hyphen_case_whole:
  assumes "n \<noteq> []" "last n \<noteq> NL"
  shows "match_hyphen_case n \<longleftrightarrow> set n \<subseteq> set hyphen_case_alphabet"
proof
  assume m: "match_hyphen_case n"
  have "dropWhile hyphen_case_char n \<noteq> [NL]"
  proof
    assume d: "dropWhile hyphen_case_char n = [NL]"
    have "n = takeWhile hyphen_case_char n @ dropWhile hyphen_case_char n" by simp
    then have "last n = NL" by (metis d last_snoc)
    with assms show False by simp
  qed
  with m have "dropWhile hyphen_case_char n = []" by (auto simp: match_hyphen_case_def Let_def)
  then have "\<forall>c\<in>set n. hyphen_case_char c" by (simp add: dropWhile_eq_Nil_conv)
  then show "set n \<subseteq> set hyphen_case_alphabet" by (auto simp: hyphen_case_char_iff)
next
  assume "set n \<subseteq> set hyphen_case_alphabet"
  then have a: "\<forall>c\<in>set n. hyphen_case_char c" by (auto simp: hyphen_case_char_iff)
  have t: "takeWhile hyphen_case_char n = n" using a by (simp add: takeWhile_eq_all_conv)
  have d: "dropWhile hyphen_case_char n = []" using a by simp
  show "match_hyphen_case n" unfolding match_hyphen_case_def Let_def t d using assms(1) by simp
qed

lemma prefix_hyphen: "n \<noteq> [] \<Longrightarrow> prefix ''-'' n \<longleftrightarrow> hd n = CHR ''-''"
  by (cases n) auto

lemma suffix_hyphen: "n \<noteq> [] \<Longrightarrow> suffix ''-'' n \<longleftrightarrow> last n = CHR ''-''"
  by (cases n rule: rev_cases) auto

lemma strip_fixed:
  assumes "s \<noteq> []" "\<not> isspace (hd s)" "\<not> isspace (last s)"
  shows "strip s = s"
proof -
  have "dropWhile isspace s = s" using assms(1,2) by (cases s) auto
  moreover have "dropWhile isspace (rev s) = rev s"
    using assms(1,3) by (cases "rev s") (auto simp: last_rev [symmetric] simp del: last_rev)
  ultimately show ?thesis by (simp add: strip_def)
qed

text \<open>The line count of a text written line by line, each line ended by a newline.\<close>

lemma splitlines_from_newline: "splitlines_from cur (NL # rest) = cur # splitlines_from [] rest"
  by (cases rest) (simp_all add: linebreak_def)

lemma splitlines_from_line:
  assumes "\<forall>c\<in>set l. \<not> linebreak c"
  shows "splitlines_from cur (l @ NL # rest) = (cur @ l) # splitlines_from [] rest"
  using assms
proof (induction l arbitrary: cur)
  case Nil
  then show ?case by (simp add: splitlines_from_newline)
next
  case (Cons c l)
  then have c: "\<not> linebreak c" and cr: "c \<noteq> CHR 0x0D" by (auto simp: linebreak_def)
  obtain d ds where d: "l @ NL # rest = d # ds" by (cases l) auto
  have "splitlines_from cur ((c # l) @ NL # rest) = splitlines_from (cur @ [c]) (l @ NL # rest)"
    using c cr by (simp add: d)
  then show ?case using Cons by simp
qed

lemma splitlines_text_of_lines:
  assumes "\<forall>l\<in>set ls. \<forall>c\<in>set l. \<not> linebreak c"
  shows "splitlines (text_of_lines ls) = ls"
proof -
  have "splitlines_from [] (text_of_lines ls) = ls" using assms
  proof (induction ls)
    case Nil
    then show ?case by (simp add: text_of_lines_def)
  next
    case (Cons l ls)
    have "text_of_lines (l # ls) = l @ NL # text_of_lines ls" by (simp add: text_of_lines_def)
    then show ?case using Cons by (simp add: splitlines_from_line)
  qed
  then show ?thesis by (simp add: splitlines_def)
qed

text \<open>The lazy group stops at the first place where the literal stands.\<close>

lemma lazy_until_Some:
  "lazy_until lit s = Some p \<Longrightarrow> \<exists>r. s = p @ lit @ r"
proof (induction s arbitrary: p)
  case Nil
  then show ?case by (simp split: if_splits)
next
  case (Cons c cs)
  show ?case
  proof (cases "prefix lit (c # cs)")
    case True
    then show ?thesis using Cons.prems by (auto simp: prefix_def)
  next
    case False
    then obtain q where q: "lazy_until lit cs = Some q" "p = c # q"
      using Cons.prems by auto
    from Cons.IH [OF q(1)] show ?thesis using q(2) by auto
  qed
qed

lemma lazy_until_found:
  "s = p @ lit @ r \<Longrightarrow> \<exists>q. lazy_until lit s = Some q \<and> length q \<le> length p"
proof (induction p arbitrary: s)
  case Nil
  then have "prefix lit s" by simp
  then have "lazy_until lit s = Some []" by (cases s) auto
  then show ?case by simp
next
  case (Cons c p)
  then obtain q where q: "lazy_until lit (p @ lit @ r) = Some q" "length q \<le> length p"
    by blast
  show ?case using Cons.prems q by auto
qed

lemma match_frontmatter_Some:
  assumes "match_frontmatter content = Some header"
  shows "\<exists>rest. content = ''---\<newline>'' @ header @ ''\<newline>---'' @ rest"
proof -
  from assms have p: "prefix ''---\<newline>'' content"
    and l: "lazy_until ''\<newline>---'' (drop 4 content) = Some header"
    by (simp_all add: match_frontmatter_def split: if_splits)
  from p have c: "content = ''---\<newline>'' @ drop 4 content" by (auto simp: prefix_def)
  from lazy_until_Some [OF l] obtain rest where "drop 4 content = header @ ''\<newline>---'' @ rest" ..
  with c have "content = ''---\<newline>'' @ header @ ''\<newline>---'' @ rest" by simp
  then show ?thesis ..
qed

lemma match_frontmatter_found:
  assumes "content = ''---\<newline>'' @ h @ ''\<newline>---'' @ r"
  shows "\<exists>header. match_frontmatter content = Some header \<and> length header \<le> length h"
proof -
  have "drop 4 content = h @ ''\<newline>---'' @ r" using assms by simp
  from lazy_until_found [OF this] show ?thesis using assms by (simp add: match_frontmatter_def)
qed

lemma first_line_delimiter: "prefix ''---\<newline>'' content \<Longrightarrow> first_line content = ''---''"
  by (auto simp: prefix_def first_line_def)

lemma str_items_Some: "str_items ys = Some ks \<longleftrightarrow> ys = map YStr ks"
proof (induction ys arbitrary: ks rule: str_items.induct)
  case 1
  then show ?case by auto
next
  case (2 s ks')
  then show ?case by (cases ks) auto
qed auto

lemma sorted_allowed:
  "join '', '' (sort ALLOWED_PROPERTIES) = ''allowed-tools, description, license, metadata, name''"
  by (simp add: ALLOWED_PROPERTIES_def)

section \<open>The gates, one by one\<close>

text \<open>The name checks on a name that is not empty after stripping, condition by condition.\<close>

lemma name_error_nonempty:
  assumes "strip s \<noteq> []"
  shows "name_error (YStr s) =
     (if \<not> set (strip s) \<subseteq> set hyphen_case_alphabet then Some (hyphen_case_message (strip s))
      else if hd (strip s) = CHR ''-'' \<or> last (strip s) = CHR ''-'' \<or> sublist ''--'' (strip s)
        then Some (hyphen_position_message (strip s))
      else if length (strip s) > 64 then Some (name_length_message (strip s))
      else None)"
proof -
  have "\<not> isspace (last (strip s))" using assms by (rule strip_last)
  then have nl: "last (strip s) \<noteq> NL" by (auto simp: isspace_def)
  show ?thesis
    unfolding name_error_def Let_def yaml.case
      match_hyphen_case_whole [OF assms nl] contains_sublist
      prefix_hyphen [OF assms] suffix_hyphen [OF assms]
    using assms by simp
qed

lemma name_error_None_iff:
  "name_error (YStr s) = None \<longleftrightarrow> strip s = [] \<or> name_language (strip s)"
proof (cases "strip s = []")
  case True
  then show ?thesis by (simp add: name_error_def)
next
  case False
  show ?thesis unfolding name_error_nonempty [OF False] name_language_def
    using False by (simp split: if_splits)
qed

lemma name_error_content:
  assumes "name_error (YStr s) \<noteq> None"
  shows "name_error (YStr s) \<in> {Some (hyphen_case_message (strip s)),
           Some (hyphen_position_message (strip s)), Some (name_length_message (strip s))}"
proof -
  have "strip s \<noteq> []" using assms by (auto simp: name_error_def)
  then show ?thesis using assms unfolding name_error_nonempty [OF \<open>strip s \<noteq> []\<close>]
    by (simp split: if_splits)
qed

text \<open>How a document reaches the checks on the mapping, and the name check among them.\<close>

lemma match_frontmatter_prefix:
  "match_frontmatter content = Some t \<Longrightarrow> prefix ''---'' content"
  by (auto simp: match_frontmatter_def prefix_def split: if_splits)

lemma validate_skill_mapping:
  assumes "fs skill_path = Readable content"
    and "match_frontmatter content = Some frontmatter_text"
    and "safe_load frontmatter_text = Loaded (YDict frontmatter)"
  shows "validate_skill safe_load fs skill_path = validate_mapping frontmatter content"
  using assms match_frontmatter_prefix [OF assms(2)]
  by (simp add: validate_skill_def validate_content_def)

lemma validate_mapping_name_gate:
  assumes "unexpected_keys frontmatter = []"
    and "has_key frontmatter ''name''" and "has_key frontmatter ''description''"
  shows "validate_mapping frontmatter content =
     (case name_error (get frontmatter ''name'' (YStr [])) of
        Some message \<Rightarrow> Return (False, message)
      | None \<Rightarrow> Return (check_description_and_lines frontmatter content))"
  using assms by (simp add: validate_mapping_def)


lemma has_key_iff: "has_key d k \<longleftrightarrow> YStr k \<in> fst ` set d"
  by (simp add: has_key_def map_of_eq_None_iff)

lemma unexpected_keys_strings:
  assumes "str_items (unexpected_keys d) = Some ks"
  shows "distinct ks \<and> set ks = {k. has_key d k \<and> k \<notin> set ALLOWED_PROPERTIES}"
proof -
  from assms have m: "unexpected_keys d = map YStr ks" by (simp add: str_items_Some)
  have "distinct (unexpected_keys d)" by (simp add: unexpected_keys_def)
  then have "distinct ks" unfolding m by (simp add: distinct_map)
  moreover have "k \<in> set ks \<longleftrightarrow> has_key d k \<and> k \<notin> set ALLOWED_PROPERTIES" for k
  proof -
    have "k \<in> set ks \<longleftrightarrow> YStr k \<in> set (unexpected_keys d)" unfolding m by auto
    also have "\<dots> \<longleftrightarrow> has_key d k \<and> k \<notin> set ALLOWED_PROPERTIES"
      by (auto simp: unexpected_keys_def has_key_iff)
    finally show ?thesis .
  qed
  ultimately show ?thesis by auto
qed

text \<open>A True verdict of the checks on the mapping means that every one of them passed.\<close>

lemma validate_mapping_True_iff:
  "validate_mapping frontmatter content = Return (True, message) \<longleftrightarrow>
     unexpected_keys frontmatter = []
     \<and> has_key frontmatter ''name'' \<and> has_key frontmatter ''description''
     \<and> name_error (get frontmatter ''name'' (YStr [])) = None
     \<and> description_error (get frontmatter ''description'' (YStr [])) = None
     \<and> length (splitlines content) \<le> 500
     \<and> message = valid_message (length (splitlines content))"
  by (auto simp: validate_mapping_def check_description_and_lines_def line_count_verdict_def
      Let_def split: option.splits)

lemma validate_content_True_iff:
  "validate_content safe_load content = Return (True, message) \<longleftrightarrow>
     (\<exists>frontmatter_text frontmatter.
        match_frontmatter content = Some frontmatter_text
        \<and> safe_load frontmatter_text = Loaded (YDict frontmatter)
        \<and> validate_mapping frontmatter content = Return (True, message))"
proof (cases "match_frontmatter content")
  case None
  then show ?thesis by (simp add: validate_content_def)
next
  case (Some header)
  note p = match_frontmatter_prefix [OF Some]
  show ?thesis
  proof (cases "safe_load header")
    case (Loaded v)
    then show ?thesis using Some p by (cases v) (simp_all add: validate_content_def)
  next
    case (YAMLError e)
    then show ?thesis using Some p by (simp add: validate_content_def)
  next
    case (LoadRaises x)
    then show ?thesis using Some p by (simp add: validate_content_def)
  qed
qed




lemma exit_status_print_all:
  "exit_status (case print_all enc ss out of
       (out', Some x) \<Rightarrow> Traceback x | (out', None) \<Rightarrow> Exit 1) = 1"
  by (cases "print_all enc ss out") (auto split: option.splits)

section \<open>The claims\<close>

text \<open>
  Claim C1. Take a document whose header parses to a mapping with a string under
  \<^verbatim>\<open>name\<close> and which reaches the name checks (no unexpected key, a description
  present; the gates run in order and the first failure wins). The name checks of lines
  76 to 87 accept the name exactly when, stripped, it is empty or in the name language
  of the specification. Then validation goes on to the description; otherwise it fails
  with one of the three messages of the name-content checks.
\<close>

theorem name_gate_accepts_name_language:
  assumes "fs skill_path = Readable content"
    and "match_frontmatter content = Some frontmatter_text"
    and "safe_load frontmatter_text = Loaded (YDict frontmatter)"
    and "unexpected_keys frontmatter = []"
    and "has_key frontmatter ''description''"
    and "map_of frontmatter (YStr ''name'') = Some (YStr s)"
  shows "(name_error (YStr s) = None \<longleftrightarrow> strip s = [] \<or> name_language (strip s))
    \<and> (strip s = [] \<or> name_language (strip s) \<longrightarrow>
         validate_skill safe_load fs skill_path
           = Return (check_description_and_lines frontmatter content))
    \<and> (\<not> (strip s = [] \<or> name_language (strip s)) \<longrightarrow>
         validate_skill safe_load fs skill_path
           \<in> {Return (False, hyphen_case_message (strip s)),
              Return (False, hyphen_position_message (strip s)),
              Return (False, name_length_message (strip s))})"
proof -
  have n: "has_key frontmatter ''name''" and g: "get frontmatter ''name'' (YStr []) = YStr s"
    using assms(6) by (simp_all add: has_key_def get_def)
  have v: "validate_skill safe_load fs skill_path =
     (case name_error (YStr s) of
        Some message \<Rightarrow> Return (False, message)
      | None \<Rightarrow> Return (check_description_and_lines frontmatter content))"
    using validate_skill_mapping [where fs = fs and safe_load = safe_load, OF assms(1-3)]
      validate_mapping_name_gate [OF assms(4) n assms(5)]
    by (simp add: g)
  have accept: "validate_skill safe_load fs skill_path
      = Return (check_description_and_lines frontmatter content)"
    if "strip s = [] \<or> name_language (strip s)"
    using that v by (simp add: name_error_None_iff [symmetric])
  have reject: "validate_skill safe_load fs skill_path
      \<in> {Return (False, hyphen_case_message (strip s)),
         Return (False, hyphen_position_message (strip s)),
         Return (False, name_length_message (strip s))}"
    if "\<not> (strip s = [] \<or> name_language (strip s))"
  proof -
    have "name_error (YStr s) \<noteq> None" using that by (simp add: name_error_None_iff)
    from name_error_content [OF this] show ?thesis using v by auto
  qed
  show ?thesis using name_error_None_iff accept reject by blast
qed

theorem name_gate_accepts_name_language_witness:
  "name_language ''my-skill''
   \<and> validate_skill
        (loads (YDict [(YStr ''name'', YStr ''my-skill''), (YStr ''description'', YStr ''Makes skills'')]))
        (holds ''---\<newline>name: my-skill\<newline>description: Makes skills\<newline>---\<newline>'')
        ''skills/my-skill''
      = Return (True, ''Skill is valid! (4 lines)'')
   \<and> validate_skill
        (loads (YDict [(YStr ''name'', YStr ''My-Skill''), (YStr ''description'', YStr ''Makes skills'')]))
        (holds ''---\<newline>name: My-Skill\<newline>description: Makes skills\<newline>---\<newline>'')
        ''skills/my-skill''
      = Return (False, hyphen_case_message ''My-Skill'')"
proof -
  let ?d = "[(YStr ''name'', YStr ''my-skill''), (YStr ''description'', YStr ''Makes skills'')]"
  let ?doc = "''---\<newline>name: my-skill\<newline>description: Makes skills\<newline>---\<newline>''"
  have s: "strip ''my-skill'' = ''my-skill''" by (simp add: strip_def isspace_def)
  have l: "name_language ''my-skill''"
    by (simp add: name_language_def hyphen_case_alphabet_def sublist_Cons_right)
  have "validate_skill (loads (YDict ?d)) (holds ?doc) ''skills/my-skill''
      = Return (check_description_and_lines ?d ?doc)"
    using name_gate_accepts_name_language
      [where fs = "holds ?doc" and safe_load = "loads (YDict ?d)" and skill_path = "''skills/my-skill''"
        and content = ?doc and frontmatter = ?d and s = "''my-skill''"
        and frontmatter_text = "''name: my-skill\<newline>description: Makes skills''"]
      l
    by (simp add: s holds_def loads_def match_frontmatter_def unexpected_keys_def
        ALLOWED_PROPERTIES_def has_key_def)
  moreover have "check_description_and_lines ?d ?doc = (True, ''Skill is valid! (4 lines)'')"
    by (simp add: check_description_and_lines_def get_def description_error_def strip_def
        isspace_def line_count_verdict_def splitlines_def linebreak_def valid_message_def
        str_nat.simps)
  moreover have "validate_skill
        (loads (YDict [(YStr ''name'', YStr ''My-Skill''), (YStr ''description'', YStr ''Makes skills'')]))
        (holds ''---\<newline>name: My-Skill\<newline>description: Makes skills\<newline>---\<newline>'')
        ''skills/my-skill''
      = Return (False, hyphen_case_message ''My-Skill'')"
    by (simp add: validate_skill_def validate_content_def holds_def loads_def
        match_frontmatter_def validate_mapping_def unexpected_keys_def ALLOWED_PROPERTIES_def
        has_key_def get_def name_error_def strip_def isspace_def match_hyphen_case_def
        hyphen_case_char_def)
  ultimately show ?thesis using l by simp
qed

text \<open>
  Claim C9. When the extracted header block loads as YAML null, validation fails with
  the message of the dictionary check: null is not a dictionary, as a list or a scalar
  is not. An empty mapping passes that check and fails later, for its missing name.
\<close>

theorem null_frontmatter_not_a_dictionary:
  assumes "fs skill_path = Readable content"
    and "match_frontmatter content = Some frontmatter_text"
  shows "(safe_load frontmatter_text = Loaded YNull \<longrightarrow>
            validate_skill safe_load fs skill_path
              = Return (False, ''Frontmatter must be a YAML dictionary''))
       \<and> (safe_load frontmatter_text = Loaded (YDict []) \<longrightarrow>
            validate_skill safe_load fs skill_path = Return (False, missing_message ''name''))"
  using assms match_frontmatter_prefix [OF assms(2)]
  by (simp add: validate_skill_def validate_content_def validate_mapping_def
      unexpected_keys_def has_key_def)

theorem null_frontmatter_not_a_dictionary_witness:
  "validate_skill (loads YNull) (holds ''---\<newline># only a comment\<newline>---\<newline>'') ''skills/my-skill''
     = Return (False, ''Frontmatter must be a YAML dictionary'')"
  using null_frontmatter_not_a_dictionary
    [where fs = "holds ''---\<newline># only a comment\<newline>---\<newline>''" and safe_load = "loads YNull"
      and skill_path = "''skills/my-skill''" and content = "''---\<newline># only a comment\<newline>---\<newline>''"
      and frontmatter_text = "''# only a comment''"]
  by (simp add: holds_def loads_def match_frontmatter_def)

text \<open>
  Claim C10. Take a document that reaches the name checks (no unexpected key, a
  description present) and has the key \<^verbatim>\<open>name\<close>. With null under that key it fails at
  the type check of the name, and the message names the type \<^verbatim>\<open>NoneType\<close>. With
  the empty string under it the type check passes, no content check runs, and
  validation goes on to the description.
\<close>

theorem null_name_rejected_empty_name_accepted:
  assumes "fs skill_path = Readable content"
    and "match_frontmatter content = Some frontmatter_text"
    and "safe_load frontmatter_text = Loaded (YDict frontmatter)"
    and "unexpected_keys frontmatter = []"
    and "has_key frontmatter ''description''"
    and "map_of frontmatter (YStr ''name'') = Some v"
  shows "(v = YNull \<longrightarrow>
            name_error v = Some ''Name must be a string, got NoneType''
          \<and> validate_skill safe_load fs skill_path
              = Return (False, ''Name must be a string, got NoneType''))
       \<and> (v = YStr [] \<longrightarrow>
            name_error v = None
          \<and> validate_skill safe_load fs skill_path
              = Return (check_description_and_lines frontmatter content))"
proof -
  have n: "has_key frontmatter ''name''" and g: "get frontmatter ''name'' (YStr []) = v"
    using assms(6) by (simp_all add: has_key_def get_def)
  have v: "validate_skill safe_load fs skill_path =
     (case name_error v of
        Some message \<Rightarrow> Return (False, message)
      | None \<Rightarrow> Return (check_description_and_lines frontmatter content))"
    using validate_skill_mapping [where fs = fs and safe_load = safe_load, OF assms(1-3)]
      validate_mapping_name_gate [OF assms(4) n assms(5)]
    by (simp add: g)
  have null: "name_error YNull = Some ''Name must be a string, got NoneType''"
    by (simp add: name_error_def name_type_message_def)
  have empty: "name_error (YStr []) = None"
    by (simp add: name_error_def strip_def)
  show ?thesis using v null empty by auto
qed

theorem null_name_rejected_empty_name_accepted_witness:
  "validate_skill
     (loads (YDict [(YStr ''name'', YNull), (YStr ''description'', YStr ''Makes skills'')]))
     (holds ''---\<newline>name:\<newline>description: Makes skills\<newline>---\<newline>'') ''skills/my-skill''
     = Return (False, ''Name must be a string, got NoneType'')
   \<and> validate_skill
     (loads (YDict [(YStr ''name'', YStr []), (YStr ''description'', YStr ''Makes skills'')]))
     (holds (''---\<newline>name: '' @ [QUOTE, QUOTE] @ ''\<newline>description: Makes skills\<newline>---\<newline>'')) ''skills/my-skill''
     = Return (True, ''Skill is valid! (4 lines)'')"
proof -
  let ?d = "[(YStr ''name'', YNull), (YStr ''description'', YStr ''Makes skills'')]"
  let ?doc = "''---\<newline>name:\<newline>description: Makes skills\<newline>---\<newline>''"
  let ?e = "[(YStr ''name'', YStr []), (YStr ''description'', YStr ''Makes skills'')]"
  let ?eoc = "(''---\<newline>name: '' @ [QUOTE, QUOTE] @ ''\<newline>description: Makes skills\<newline>---\<newline>'')"
  have "validate_skill (loads (YDict ?d)) (holds ?doc) ''skills/my-skill''
      = Return (False, ''Name must be a string, got NoneType'')"
    using null_name_rejected_empty_name_accepted
      [where fs = "holds ?doc" and safe_load = "loads (YDict ?d)"
        and skill_path = "''skills/my-skill''" and content = ?doc and frontmatter = ?d
        and v = YNull and frontmatter_text = "''name:\<newline>description: Makes skills''"]
    by (simp add: holds_def loads_def match_frontmatter_def unexpected_keys_def
        ALLOWED_PROPERTIES_def has_key_def)
  moreover have "validate_skill (loads (YDict ?e)) (holds ?eoc) ''skills/my-skill''
      = Return (check_description_and_lines ?e ?eoc)"
    using null_name_rejected_empty_name_accepted
      [where fs = "holds ?eoc" and safe_load = "loads (YDict ?e)"
        and skill_path = "''skills/my-skill''" and content = ?eoc and frontmatter = ?e
        and v = "YStr []" and frontmatter_text = "''name: '' @ [QUOTE, QUOTE] @ ''\<newline>description: Makes skills''"]
    by (simp add: holds_def loads_def match_frontmatter_def unexpected_keys_def
        ALLOWED_PROPERTIES_def has_key_def)
  moreover have "check_description_and_lines ?e ?eoc = (True, ''Skill is valid! (4 lines)'')"
    by (simp add: check_description_and_lines_def get_def description_error_def strip_def
        isspace_def line_count_verdict_def splitlines_def linebreak_def valid_message_def
        str_nat.simps)
  ultimately show ?thesis by simp
qed

text \<open>
  Claim C6. Take a document that reaches the description checks (no unexpected key, a
  name that passes its checks) and has a string under \<^verbatim>\<open>description\<close>. If the
  stripped description is not empty and holds \<^verbatim>\<open><\<close> or \<^verbatim>\<open>>\<close>, validation fails
  with the message about angle brackets, whatever the length of the description: that
  check stands before the length check. If the stripped description is empty, neither
  check runs and the line count decides.
\<close>

theorem angle_brackets_before_length:
  assumes "fs skill_path = Readable content"
    and "match_frontmatter content = Some frontmatter_text"
    and "safe_load frontmatter_text = Loaded (YDict frontmatter)"
    and "unexpected_keys frontmatter = []"
    and "has_key frontmatter ''name''"
    and "name_error (get frontmatter ''name'' (YStr [])) = None"
    and "map_of frontmatter (YStr ''description'') = Some (YStr s)"
  shows "(strip s \<noteq> [] \<and> (CHR ''<'' \<in> set (strip s) \<or> CHR ''>'' \<in> set (strip s)) \<longrightarrow>
            description_error (YStr s) = Some angle_bracket_message
          \<and> validate_skill safe_load fs skill_path = Return (False, angle_bracket_message))
       \<and> (strip s = [] \<longrightarrow>
            description_error (YStr s) = None
          \<and> validate_skill safe_load fs skill_path = Return (line_count_verdict content))"
proof -
  have d: "has_key frontmatter ''description''"
    and g: "get frontmatter ''description'' (YStr []) = YStr s"
    using assms(7) by (simp_all add: has_key_def get_def)
  have v: "validate_skill safe_load fs skill_path =
     Return (case description_error (YStr s) of
        Some message \<Rightarrow> (False, message)
      | None \<Rightarrow> line_count_verdict content)"
    using validate_skill_mapping [where fs = fs and safe_load = safe_load, OF assms(1-3)]
      validate_mapping_name_gate [OF assms(4) assms(5) d] assms(6)
    by (simp add: g check_description_and_lines_def)
  have angle: "description_error (YStr s) = Some angle_bracket_message"
    if "strip s \<noteq> []" "CHR ''<'' \<in> set (strip s) \<or> CHR ''>'' \<in> set (strip s)"
    using that by (simp add: description_error_def Let_def)
  have empty: "description_error (YStr s) = None" if "strip s = []"
    using that by (simp add: description_error_def)
  show ?thesis using v angle empty by auto
qed

theorem angle_brackets_before_length_witness:
  "validate_skill
     (loads (YDict [(YStr ''name'', YStr ''my-skill''), (YStr ''description'', YStr ''<script>'')]))
     (holds ''---\<newline>name: my-skill\<newline>description: <script>\<newline>---\<newline>'') ''skills/my-skill''
     = Return (False, ''Description cannot contain angle brackets (< or >)'')
   \<and> description_error (YStr (CHR ''<'' # replicate 2000 (CHR ''a''))) = Some angle_bracket_message"
proof -
  let ?d = "[(YStr ''name'', YStr ''my-skill''), (YStr ''description'', YStr ''<script>'')]"
  let ?doc = "''---\<newline>name: my-skill\<newline>description: <script>\<newline>---\<newline>''"
  have n: "name_error (YStr ''my-skill'') = None"
    by (simp add: name_error_None_iff strip_def isspace_def name_language_def
        hyphen_case_alphabet_def sublist_Cons_right)
  have s: "strip ''<script>'' = ''<script>''" by (simp add: strip_def isspace_def)
  have "validate_skill (loads (YDict ?d)) (holds ?doc) ''skills/my-skill''
      = Return (False, angle_bracket_message)"
    using angle_brackets_before_length
      [where fs = "holds ?doc" and safe_load = "loads (YDict ?d)"
        and skill_path = "''skills/my-skill''" and content = ?doc and frontmatter = ?d
        and s = "''<script>''" and frontmatter_text = "''name: my-skill\<newline>description: <script>''"]
    by (simp add: holds_def loads_def match_frontmatter_def unexpected_keys_def
        ALLOWED_PROPERTIES_def has_key_def get_def n s)
  moreover have "strip (CHR ''<'' # replicate 2000 (CHR ''a'')) = CHR ''<'' # replicate 2000 (CHR ''a'')"
    by (rule strip_fixed) (simp_all add: isspace_def)
  then have "description_error (YStr (CHR ''<'' # replicate 2000 (CHR ''a''))) = Some angle_bracket_message"
    by (simp add: description_error_def)
  ultimately show ?thesis by (simp add: angle_bracket_message_def)
qed




text \<open>
  Claim C5. For a document that passes every earlier gate, the number of lines of the
  whole text (header and body, as \<^verbatim>\<open>splitlines\<close> counts them) decides: above 500
  validation fails and the message carries that number and the maximum 500; at 500 or
  below it succeeds and the message carries that number.
\<close>

theorem line_count_gate:
  assumes "fs skill_path = Readable content"
    and "match_frontmatter content = Some frontmatter_text"
    and "safe_load frontmatter_text = Loaded (YDict frontmatter)"
    and "unexpected_keys frontmatter = []"
    and "has_key frontmatter ''name''" and "has_key frontmatter ''description''"
    and "name_error (get frontmatter ''name'' (YStr [])) = None"
    and "description_error (get frontmatter ''description'' (YStr [])) = None"
  shows "validate_skill safe_load fs skill_path =
     (if length (splitlines content) > 500
      then Return (False, ''SKILL.md too long ('' @ str_nat (length (splitlines content))
                          @ '' lines). Recommended max: 500'')
      else Return (True, ''Skill is valid! ('' @ str_nat (length (splitlines content))
                         @ '' lines)''))"
  using validate_skill_mapping [where fs = fs and safe_load = safe_load, OF assms(1-3)]
    validate_mapping_name_gate [OF assms(4-6)] assms(7,8)
  by (simp add: check_description_and_lines_def line_count_verdict_def Let_def
      too_long_message_def valid_message_def)

theorem line_count_gate_witness:
  "validate_skill
     (loads (YDict [(YStr ''name'', YStr ''my-skill''), (YStr ''description'', YStr ''Makes skills'')]))
     (holds (text_of_lines ([''---'', ''name: my-skill'', ''description: Makes skills'', ''---'']
                            @ replicate 496 ''body'')))
     ''skills/my-skill''
     = Return (True, ''Skill is valid! (500 lines)'')
   \<and> validate_skill
     (loads (YDict [(YStr ''name'', YStr ''my-skill''), (YStr ''description'', YStr ''Makes skills'')]))
     (holds (text_of_lines ([''---'', ''name: my-skill'', ''description: Makes skills'', ''---'']
                            @ replicate 497 ''body'')))
     ''skills/my-skill''
     = Return (False, ''SKILL.md too long (501 lines). Recommended max: 500'')"
proof -
  let ?d = "[(YStr ''name'', YStr ''my-skill''), (YStr ''description'', YStr ''Makes skills'')]"
  let ?doc = "\<lambda>k. text_of_lines ([''---'', ''name: my-skill'', ''description: Makes skills'', ''---'']
                            @ replicate k ''body'')"
  have n: "name_error (YStr ''my-skill'') = None"
    by (simp add: name_error_None_iff strip_def isspace_def name_language_def
        hyphen_case_alphabet_def sublist_Cons_right)
  have d: "description_error (YStr ''Makes skills'') = None"
    by (simp add: description_error_def strip_def isspace_def)
  have m: "match_frontmatter (?doc k) = Some ''name: my-skill\<newline>description: Makes skills''" for k
    by (simp add: match_frontmatter_def text_of_lines_def)
  have "splitlines (?doc k) = [''---'', ''name: my-skill'', ''description: Makes skills'', ''---'']
                            @ replicate k ''body''" for k
    by (rule splitlines_text_of_lines) (auto simp: linebreak_def)
  then have c: "length (splitlines (?doc k)) = 4 + k" for k by simp
  have v: "validate_skill (loads (YDict ?d)) (holds (?doc k)) ''skills/my-skill'' =
     (if 4 + k > 500
      then Return (False, ''SKILL.md too long ('' @ str_nat (4 + k)
                          @ '' lines). Recommended max: 500'')
      else Return (True, ''Skill is valid! ('' @ str_nat (4 + k) @ '' lines)''))" for k
    using line_count_gate
      [where fs = "holds (?doc k)" and safe_load = "loads (YDict ?d)"
        and skill_path = "''skills/my-skill''" and content = "?doc k" and frontmatter = ?d
        and frontmatter_text = "''name: my-skill\<newline>description: Makes skills''", OF _ m]
    unfolding c
    by (simp add: holds_def loads_def unexpected_keys_def ALLOWED_PROPERTIES_def has_key_def
        get_def n d)
  show ?thesis using v [of 496] v [of 497] by (simp add: str_nat.simps)
qed

text \<open>
  Claim C3, as the specification states it, fails: a document whose first line is
  \<^verbatim>\<open>----\<close> or \<^verbatim>\<open>--- extra\<close> starts with the three characters \<^verbatim>\<open>---\<close>, so it
  passes the check of line 43 and fails at the next one, with another message.
\<close>

theorem no_frontmatter_reason_counterexample:
  "first_line ''----\<newline>name: my-skill\<newline>description: Makes skills\<newline>---\<newline>'' \<noteq> ''---''
   \<and> validate_skill
       (loads (YDict [(YStr ''name'', YStr ''my-skill''), (YStr ''description'', YStr ''Makes skills'')]))
       (holds ''----\<newline>name: my-skill\<newline>description: Makes skills\<newline>---\<newline>'')
       ''skills/my-skill''
     = Return (False, ''Invalid frontmatter format'')
   \<and> first_line ''--- extra\<newline>name: my-skill\<newline>description: Makes skills\<newline>---\<newline>'' \<noteq> ''---''
   \<and> validate_skill
       (loads (YDict [(YStr ''name'', YStr ''my-skill''), (YStr ''description'', YStr ''Makes skills'')]))
       (holds ''--- extra\<newline>name: my-skill\<newline>description: Makes skills\<newline>---\<newline>'')
       ''skills/my-skill''
     = Return (False, ''Invalid frontmatter format'')"
  by (simp add: first_line_def validate_skill_def validate_content_def holds_def
      match_frontmatter_def)

text \<open>
  Claim C3, amended. For every existing document whose text does not start with the
  three characters \<^verbatim>\<open>---\<close>, validation fails with the message that no frontmatter was
  found, whatever the rest of the text is. A document that starts with \<^verbatim>\<open>---\<close> and whose
  first line is not exactly \<^verbatim>\<open>---\<close> passes that check and fails at the next one, with
  the message of the invalid format.
\<close>

theorem no_frontmatter_reason:
  assumes "fs skill_path = Readable content"
  shows "(\<not> prefix ''---'' content \<longrightarrow>
            validate_skill safe_load fs skill_path = Return (False, ''No YAML frontmatter found''))
       \<and> (prefix ''---'' content \<and> first_line content \<noteq> ''---'' \<longrightarrow>
            validate_skill safe_load fs skill_path = Return (False, ''Invalid frontmatter format''))"
proof -
  have "match_frontmatter content = None" if "first_line content \<noteq> ''---''"
    using that first_line_delimiter [of content] by (auto simp: match_frontmatter_def)
  then show ?thesis using assms by (simp add: validate_skill_def validate_content_def)
qed

theorem no_frontmatter_reason_witness:
  "validate_skill (loads YNull) (holds ''# My skill\<newline>---\<newline>name: my-skill\<newline>---\<newline>'') ''skills/my-skill''
     = Return (False, ''No YAML frontmatter found'')
   \<and> validate_skill (loads YNull) (holds ''----\<newline>name: my-skill\<newline>---\<newline>'') ''skills/my-skill''
     = Return (False, ''Invalid frontmatter format'')"
  using no_frontmatter_reason
      [where fs = "holds ''# My skill\<newline>---\<newline>name: my-skill\<newline>---\<newline>''" and safe_load = "loads YNull"
        and skill_path = "''skills/my-skill''"
        and content = "''# My skill\<newline>---\<newline>name: my-skill\<newline>---\<newline>''"]
    no_frontmatter_reason
      [where fs = "holds ''----\<newline>name: my-skill\<newline>---\<newline>''" and safe_load = "loads YNull"
        and skill_path = "''skills/my-skill''" and content = "''----\<newline>name: my-skill\<newline>---\<newline>''"]
  by (simp add: holds_def first_line_def)

text \<open>
  Claim C2, as the specification states it, fails in both directions. The pattern ends
  with \<^verbatim>\<open>\n---\<close> and asks nothing of what follows, so a later line that only starts
  with \<^verbatim>\<open>---\<close> closes the header: the first document below has no line that is
  \<^verbatim>\<open>---\<close> alone after its first line, yet its header is extracted and it is found
  valid. And the pattern needs a newline before the closing \<^verbatim>\<open>---\<close> that is not the
  newline of the opening line: the second document has a closing line \<^verbatim>\<open>---\<close> right
  after the opening one, and no header is extracted.
\<close>

theorem frontmatter_extraction_counterexample:
  "prefix ''---'' ''---\<newline>name: my-skill\<newline>description: Makes skills\<newline>---- not a delimiter\<newline>''
   \<and> \<not> closing_delimiter_line
         ''---\<newline>name: my-skill\<newline>description: Makes skills\<newline>---- not a delimiter\<newline>''
   \<and> match_frontmatter ''---\<newline>name: my-skill\<newline>description: Makes skills\<newline>---- not a delimiter\<newline>''
       = Some ''name: my-skill\<newline>description: Makes skills''
   \<and> validate_skill
       (loads (YDict [(YStr ''name'', YStr ''my-skill''), (YStr ''description'', YStr ''Makes skills'')]))
       (holds ''---\<newline>name: my-skill\<newline>description: Makes skills\<newline>---- not a delimiter\<newline>'')
       ''skills/my-skill''
     = Return (True, ''Skill is valid! (4 lines)'')
   \<and> prefix ''---'' ''---\<newline>---\<newline>''
   \<and> closing_delimiter_line ''---\<newline>---\<newline>''
   \<and> match_frontmatter ''---\<newline>---\<newline>'' = None
   \<and> validate_skill (loads YNull) (holds ''---\<newline>---\<newline>'') ''skills/my-skill''
     = Return (False, ''Invalid frontmatter format'')"
proof -
  have n: "name_error (YStr ''my-skill'') = None"
    by (simp add: name_error_None_iff strip_def isspace_def name_language_def
        hyphen_case_alphabet_def sublist_Cons_right)
  have d: "description_error (YStr ''Makes skills'') = None"
    by (simp add: description_error_def strip_def isspace_def)
  show ?thesis
    by (simp add: closing_delimiter_line_def splitlines_def linebreak_def match_frontmatter_def
        validate_skill_def validate_content_def holds_def loads_def validate_mapping_def
        unexpected_keys_def ALLOWED_PROPERTIES_def has_key_def get_def n d
        check_description_and_lines_def line_count_verdict_def valid_message_def str_nat.simps)
qed

text \<open>
  Claim C2, amended. For every document that starts with \<^verbatim>\<open>---\<close>, the header is
  extracted exactly when the text is \<^verbatim>\<open>---\<close> and a newline, then some header, then a
  newline and \<^verbatim>\<open>---\<close>, then anything. The header extracted is the shortest one for
  which that holds. When none is extracted, validation fails with the message of the
  invalid format.
\<close>

theorem frontmatter_extraction:
  assumes "fs skill_path = Readable content" and "prefix ''---'' content"
  shows "(match_frontmatter content \<noteq> None \<longleftrightarrow>
            (\<exists>header rest. content = ''---\<newline>'' @ header @ ''\<newline>---'' @ rest))
       \<and> (\<forall>header. match_frontmatter content = Some header \<longrightarrow>
            (\<exists>rest. content = ''---\<newline>'' @ header @ ''\<newline>---'' @ rest)
          \<and> (\<forall>h r. content = ''---\<newline>'' @ h @ ''\<newline>---'' @ r \<longrightarrow> length header \<le> length h))
       \<and> (match_frontmatter content = None \<longrightarrow>
            validate_skill safe_load fs skill_path = Return (False, ''Invalid frontmatter format''))"
proof (intro conjI allI impI)
  show "match_frontmatter content \<noteq> None \<longleftrightarrow>
      (\<exists>header rest. content = ''---\<newline>'' @ header @ ''\<newline>---'' @ rest)"
    using match_frontmatter_Some [of content] match_frontmatter_found [of content] by fastforce
next
  fix header
  assume "match_frontmatter content = Some header"
  then show "\<exists>rest. content = ''---\<newline>'' @ header @ ''\<newline>---'' @ rest"
    by (rule match_frontmatter_Some)
next
  fix header h r
  assume "match_frontmatter content = Some header"
    and "content = ''---\<newline>'' @ h @ ''\<newline>---'' @ r"
  then show "length header \<le> length h"
    using match_frontmatter_found [of content h r] by auto
next
  assume "match_frontmatter content = None"
  then show "validate_skill safe_load fs skill_path = Return (False, ''Invalid frontmatter format'')"
    using assms by (simp add: validate_skill_def validate_content_def)
qed

theorem frontmatter_extraction_witness:
  "match_frontmatter ''---\<newline>name: my-skill\<newline>---- not a delimiter\<newline>'' \<noteq> None
   \<and> validate_skill (loads YNull) (holds ''---\<newline>---\<newline>'') ''skills/my-skill''
     = Return (False, ''Invalid frontmatter format'')"
proof -
  let ?doc = "''---\<newline>name: my-skill\<newline>---- not a delimiter\<newline>''"
  have e: "\<exists>header rest. ?doc = ''---\<newline>'' @ header @ ''\<newline>---'' @ rest"
    by (rule exI [of _ "''name: my-skill''"], rule exI [of _ "''- not a delimiter\<newline>''"]) simp
  have r: "holds ?doc ''skills/my-skill'' = Readable ?doc" by (simp add: holds_def)
  have p: "prefix ''---'' ?doc" by simp
  have "match_frontmatter ?doc \<noteq> None"
    using frontmatter_extraction [where fs = "holds ?doc", OF r p, THEN conjunct1] e
    by (rule iffD2)
  moreover have "validate_skill (loads YNull) (holds ''---\<newline>---\<newline>'') ''skills/my-skill''
     = Return (False, ''Invalid frontmatter format'')"
    using frontmatter_extraction
      [where fs = "holds ''---\<newline>---\<newline>''" and safe_load = "loads YNull"
        and skill_path = "''skills/my-skill''" and content = "''---\<newline>---\<newline>''"]
    by (simp add: holds_def match_frontmatter_def)
  ultimately show ?thesis by simp
qed

text \<open>
  Claim C4: the code departs from it. A key of a YAML mapping need not be a string.
  The header \<^verbatim>\<open>1: x\<close> loads as a mapping with the integer key 1; it lacks
  \<^verbatim>\<open>name\<close> and has a key outside the schema, and \<^verbatim>\<open>', '.join(sorted(unexpected_keys))\<close>
  of line 65 raises TypeError on it, so no message about the unexpected key is returned.
\<close>

theorem non_string_key_raises:
  "validate_skill (loads (YDict [(YInt 1, YStr ''x'')])) (holds ''---\<newline>1: x\<newline>---\<newline>'')
     ''skills/my-skill''
   = Raise TypeError"
  by (simp add: validate_skill_def validate_content_def holds_def loads_def
      match_frontmatter_def validate_mapping_def unexpected_keys_def ALLOWED_PROPERTIES_def)

text \<open>
  What holds of the order of the gates, for keys that are strings. When the keys outside
  the schema are strings, validation fails with the message that lists them sorted,
  each once, and the schema sorted, whether or not \<^verbatim>\<open>name\<close> is present: the key-set check
  stands before the checks of the required fields. Of those, \<^verbatim>\<open>name\<close> is checked
  before \<^verbatim>\<open>description\<close>.
\<close>

theorem key_set_gate_first:
  assumes "fs skill_path = Readable content"
    and "match_frontmatter content = Some frontmatter_text"
    and "safe_load frontmatter_text = Loaded (YDict frontmatter)"
  shows "(unexpected_keys frontmatter \<noteq> [] \<and> str_items (unexpected_keys frontmatter) = Some ks \<longrightarrow>
            validate_skill safe_load fs skill_path
              = Return (False, ''Unexpected key(s) in frontmatter: '' @ join '', '' (sort ks)
                  @ ''. Allowed: allowed-tools, description, license, metadata, name'')
          \<and> distinct ks \<and> set ks = {k. has_key frontmatter k \<and> k \<notin> set ALLOWED_PROPERTIES})
       \<and> (unexpected_keys frontmatter = [] \<and> \<not> has_key frontmatter ''name'' \<longrightarrow>
            validate_skill safe_load fs skill_path
              = Return (False, ''Missing '' @ [QUOTE] @ ''name'' @ [QUOTE] @ '' in frontmatter''))
       \<and> (unexpected_keys frontmatter = [] \<and> has_key frontmatter ''name''
            \<and> \<not> has_key frontmatter ''description'' \<longrightarrow>
            validate_skill safe_load fs skill_path
              = Return (False, ''Missing '' @ [QUOTE] @ ''description'' @ [QUOTE] @ '' in frontmatter''))"
proof -
  have v: "validate_skill safe_load fs skill_path = validate_mapping frontmatter content"
    using assms by (rule validate_skill_mapping [where fs = fs and safe_load = safe_load])
  have u: "validate_mapping frontmatter content
      = Return (False, ''Unexpected key(s) in frontmatter: '' @ join '', '' (sort ks)
                  @ ''. Allowed: allowed-tools, description, license, metadata, name'')"
    if "unexpected_keys frontmatter \<noteq> []" "str_items (unexpected_keys frontmatter) = Some ks"
    using that by (simp add: validate_mapping_def unexpected_message_def sorted_allowed)
  show ?thesis
    using u unexpected_keys_strings [of frontmatter ks]
    by (auto simp: v validate_mapping_def missing_message_def)
qed

theorem key_set_gate_first_witness:
  "validate_skill
     (loads (YDict [(YStr ''version'', YInt 2), (YStr ''description'', YStr ''Makes skills''),
                    (YStr ''author'', YStr ''me'')]))
     (holds ''---\<newline>version: 2\<newline>description: Makes skills\<newline>author: me\<newline>---\<newline>'')
     ''skills/my-skill''
   = Return (False, ''Unexpected key(s) in frontmatter: author, version. Allowed: allowed-tools, description, license, metadata, name'')
   \<and> validate_skill (loads (YDict [])) (holds ''---\<newline>{}\<newline>---\<newline>'') ''skills/my-skill''
   = Return (False, ''Missing '' @ [QUOTE] @ ''name'' @ [QUOTE] @ '' in frontmatter'')"
proof -
  let ?d = "[(YStr ''version'', YInt 2), (YStr ''description'', YStr ''Makes skills''),
             (YStr ''author'', YStr ''me'')]"
  let ?doc = "''---\<newline>version: 2\<newline>description: Makes skills\<newline>author: me\<newline>---\<newline>''"
  have "validate_skill (loads (YDict ?d)) (holds ?doc) ''skills/my-skill''
      = Return (False, ''Unexpected key(s) in frontmatter: '' @ join '', '' (sort [''version'', ''author''])
                  @ ''. Allowed: allowed-tools, description, license, metadata, name'')"
    using key_set_gate_first
      [where fs = "holds ?doc" and safe_load = "loads (YDict ?d)"
        and skill_path = "''skills/my-skill''" and content = ?doc and frontmatter = ?d
        and ks = "[''version'', ''author'']"
        and frontmatter_text = "''version: 2\<newline>description: Makes skills\<newline>author: me''"]
    by (simp add: holds_def loads_def match_frontmatter_def unexpected_keys_def
        ALLOWED_PROPERTIES_def)
  moreover have "validate_skill (loads (YDict [])) (holds ''---\<newline>{}\<newline>---\<newline>'') ''skills/my-skill''
      = Return (False, ''Missing '' @ [QUOTE] @ ''name'' @ [QUOTE] @ '' in frontmatter'')"
    using key_set_gate_first
      [where fs = "holds ''---\<newline>{}\<newline>---\<newline>''" and safe_load = "loads (YDict [])"
        and skill_path = "''skills/my-skill''" and content = "''---\<newline>{}\<newline>---\<newline>''"
        and frontmatter = "[]" and frontmatter_text = "''{}''"]
    by (simp add: holds_def loads_def match_frontmatter_def unexpected_keys_def has_key_def)
  ultimately show ?thesis by simp
qed




text \<open>
  The valid skills. \<^verbatim>\<open>validate_skill\<close> returns True exactly when \<^verbatim>\<open>SKILL.md\<close> can be read,
  its header is extracted and loads as a mapping, the mapping has no key outside the
  schema and has \<^verbatim>\<open>name\<close> and \<^verbatim>\<open>description\<close>, the name check and the description
  check find nothing, and the text has at most 500 lines; the message then carries the
  number of lines of the whole text.
\<close>

theorem valid_exactly_when_every_gate_passes:
  "validate_skill safe_load fs skill_path = Return (True, message) \<longleftrightarrow>
     (\<exists>content frontmatter_text frontmatter.
        fs skill_path = Readable content
        \<and> match_frontmatter content = Some frontmatter_text
        \<and> safe_load frontmatter_text = Loaded (YDict frontmatter)
        \<and> unexpected_keys frontmatter = []
        \<and> has_key frontmatter ''name'' \<and> has_key frontmatter ''description''
        \<and> name_error (get frontmatter ''name'' (YStr [])) = None
        \<and> description_error (get frontmatter ''description'' (YStr [])) = None
        \<and> length (splitlines content) \<le> 500
        \<and> message = ''Skill is valid! ('' @ str_nat (length (splitlines content)) @ '' lines)'')"
proof (cases "fs skill_path")
  case Absent
  then show ?thesis by (simp add: validate_skill_def)
next
  case (Unreadable x)
  then show ?thesis by (simp add: validate_skill_def)
next
  case (Readable content)
  then have "validate_skill safe_load fs skill_path = validate_content safe_load content"
    by (simp add: validate_skill_def)
  then show ?thesis using Readable
    by (simp add: validate_content_True_iff validate_mapping_True_iff valid_message_def)
qed

theorem valid_exactly_when_every_gate_passes_witness:
  "validate_skill
     (loads (YDict [(YStr ''name'', YStr ''my-skill''), (YStr ''description'', YStr ''Makes skills'')]))
     (holds ''---\<newline>name: my-skill\<newline>description: Makes skills\<newline>---\<newline># My skill\<newline>'')
     ''skills/my-skill''
   = Return (True, ''Skill is valid! (5 lines)'')"
proof -
  let ?d = "[(YStr ''name'', YStr ''my-skill''), (YStr ''description'', YStr ''Makes skills'')]"
  let ?doc = "''---\<newline>name: my-skill\<newline>description: Makes skills\<newline>---\<newline># My skill\<newline>''"
  have s: "splitlines ?doc = [''---'', ''name: my-skill'', ''description: Makes skills'', ''---'', ''# My skill'']"
    by (simp add: splitlines_def linebreak_def)
  have "\<exists>content frontmatter_text frontmatter.
        holds ?doc ''skills/my-skill'' = Readable content
        \<and> match_frontmatter content = Some frontmatter_text
        \<and> loads (YDict ?d) frontmatter_text = Loaded (YDict frontmatter)
        \<and> unexpected_keys frontmatter = []
        \<and> has_key frontmatter ''name'' \<and> has_key frontmatter ''description''
        \<and> name_error (get frontmatter ''name'' (YStr [])) = None
        \<and> description_error (get frontmatter ''description'' (YStr [])) = None
        \<and> length (splitlines content) \<le> 500
        \<and> ''Skill is valid! (5 lines)''
            = ''Skill is valid! ('' @ str_nat (length (splitlines content)) @ '' lines)''"
    apply (rule exI [of _ ?doc])
    apply (rule exI [of _ "''name: my-skill\<newline>description: Makes skills''"])
    apply (rule exI [of _ ?d])
    unfolding s
    apply (simp add: holds_def loads_def match_frontmatter_def unexpected_keys_def
        ALLOWED_PROPERTIES_def has_key_def get_def)
    apply (simp add: name_error_def description_error_def strip_def isspace_def
        match_hyphen_case_def hyphen_case_char_def Let_def str_nat.simps suffix_hyphen)
    done
  then show ?thesis
    by (rule valid_exactly_when_every_gate_passes [THEN iffD2])
qed

text \<open>
  The first gate. When the skill directory has no \<^verbatim>\<open>SKILL.md\<close>, validation fails with
  \<^verbatim>\<open>SKILL.md not found\<close>, for every loader.
\<close>

theorem missing_document:
  "fs skill_path = Absent \<Longrightarrow>
     validate_skill safe_load fs skill_path = Return (False, ''SKILL.md not found'')"
  by (simp add: validate_skill_def)

theorem missing_document_witness:
  "validate_skill (loads YNull) (\<lambda>skill_path. Absent) ''skills/none''
     = Return (False, ''SKILL.md not found'')"
  using missing_document [of "\<lambda>skill_path. Absent" "''skills/none''" "loads YNull"] by simp

end
